theory Spec2Isabelle
  imports Main
begin

section \<open>The field schema model\<close>

text \<open>
  The source is the schema declaration file of the resource cache: one object type per
  field kind, the union \<open>FieldSchema\<close> of the kinds that may appear in the \<open>fields\<close>
  of a schema, and \<open>ResourceSchema\<close> itself.

  Every object type becomes a record and every union a datatype with one constructor per
  member. The \<open>kind\<close> property of an object type is a string literal type with a single
  inhabitant, so it is not stored: the functions \<open>kind_...\<close> return it.
  An optional property \<open>p?: T\<close> is a \<open>T option\<close> (\<open>None\<close>: omitted), a property of type
  \<open>T | null\<close> is a \<open>T option\<close> as well (\<open>None\<close>: null), and \<open>p?: T | null\<close> nests the two.

  \<open>ObjectValue\<close> and \<open>PrimitiveValue\<close> are imported from a file that is not part of the
  sources at hand. They are the type parameters \<open>'o\<close> and \<open>'p\<close>.
\<close>

subsection \<open>Literal types\<close>

text \<open>The literal type \<open>false\<close>: the booleans that are \<open>False\<close>.\<close>

typedef FalseLiteral = "{False}"
  by auto

text \<open>The literal type \<open>null\<close> has one value; it is \<open>unit\<close>.\<close>

type_synonym NullLiteral = unit

subsection \<open>One record per field kind\<close>

record 'o GenericField =
  name :: string
  type :: "string option"
  options :: "'o option"

record IdentityField =
  name :: string

record 'o HashField =
  name :: "string option"
  type :: string
  options :: "'o option"

record 'p LocalOptions =
  defaultValue :: "'p option"

record 'p LocalField =
  name :: string
  type :: "string option"
  options :: "'p LocalOptions option"

record 'o ObjectField =
  name :: string
  type :: "string option"
  options :: "'o option"

record SchemaObjectOptions =
  polymorphic :: "bool option"
  type :: "string option"

record SchemaObjectField =
  name :: string
  type :: string
  options :: "SchemaObjectOptions option"

record 'o ArrayField =
  name :: string
  type :: "string option"
  options :: "'o option"

record SchemaArrayOptions =
  key :: "string option"
  polymorphic :: "bool option"
  type :: "string option"

record SchemaArrayField =
  name :: string
  type :: string
  options :: "SchemaArrayOptions option"

record 'o DerivedField =
  name :: string
  type :: string
  options :: "'o option"

record ResourceOptions =
  async :: "bool option"
  inverse :: "string option option"
  as :: "string option"
  polymorphic :: "bool option"

record ResourceField =
  name :: string
  type :: string
  options :: "ResourceOptions option"

record CollectionOptions =
  async :: "bool option"
  inverse :: "string option option"
  as :: "string option"
  polymorphic :: "bool option"

record CollectionField =
  name :: string
  type :: string
  options :: "CollectionOptions option"

record 'o LegacyAttributeField =
  name :: string
  type :: "string option option"
  options :: "'o option"

record LegacyBelongsToOptions =
  async :: bool
  inverse :: "string option"
  as :: "string option"
  polymorphic :: "bool option"
  resetOnRemoteUpdate :: "FalseLiteral option"

record LegacyBelongsToField =
  name :: string
  type :: string
  options :: LegacyBelongsToOptions

record LegacyHasManyOptions =
  async :: bool
  inverse :: "string option"
  as :: "string option"
  polymorphic :: "bool option"
  resetOnRemoteUpdate :: "FalseLiteral option"

record LegacyHasManyField =
  name :: string
  type :: string
  options :: LegacyHasManyOptions

subsection \<open>The unions\<close>

text \<open>The union written out as the type of \<open>AliasField.options\<close>, in the source's order.\<close>

datatype 'o AliasTarget =
    TGeneric "'o GenericField"
  | TObject "'o ObjectField"
  | TSchemaObject SchemaObjectField
  | TArray "'o ArrayField"
  | TSchemaArray SchemaArrayField
  | TResource ResourceField
  | TCollection CollectionField
  | TLegacyAttribute "'o LegacyAttributeField"
  | TLegacyBelongsTo LegacyBelongsToField
  | TLegacyHasMany LegacyHasManyField

record 'o AliasField =
  name :: string
  type :: NullLiteral
  options :: "'o AliasTarget"

datatype ('o, 'p) FieldSchema =
    FGeneric "'o GenericField"
  | FAlias "'o AliasField"
  | FLocal "'p LocalField"
  | FObject "'o ObjectField"
  | FSchemaObject SchemaObjectField
  | FArray "'o ArrayField"
  | FSchemaArray SchemaArrayField
  | FDerived "'o DerivedField"
  | FResource ResourceField
  | FCollection CollectionField
  | FLegacyAttribute "'o LegacyAttributeField"
  | FLegacyBelongsTo LegacyBelongsToField
  | FLegacyHasMany LegacyHasManyField

text \<open>The two object types of the \<open>identity\<close> slot; its \<open>null\<close> is the \<open>None\<close> of the slot.\<close>

datatype 'o Identity =
    IIdentity IdentityField
  | IHash "'o HashField"

text \<open>
  The property \<open>fields\<close> is the record field \<open>fields'\<close>: the record package keeps the
  name \<open>fields\<close> for a constant of its own.
\<close>

record ('o, 'p) ResourceSchema =
  legacy :: "bool option"
  identity :: "'o Identity option"
  type :: string
  traits :: "string list option"
  fields' :: "('o, 'p) FieldSchema list"

datatype 'o LegacyFieldSchema =
    LAttribute "'o LegacyAttributeField"
  | LBelongsTo LegacyBelongsToField
  | LHasMany LegacyHasManyField

datatype LegacyRelationshipSchema =
    RBelongsTo LegacyBelongsToField
  | RHasMany LegacyHasManyField

subsection \<open>The kind tags\<close>

fun kind_AliasTarget :: "'o AliasTarget \<Rightarrow> string" where
  "kind_AliasTarget (TGeneric f) = ''field''"
| "kind_AliasTarget (TObject f) = ''object''"
| "kind_AliasTarget (TSchemaObject f) = ''schema-object''"
| "kind_AliasTarget (TArray f) = ''array''"
| "kind_AliasTarget (TSchemaArray f) = ''schema-array''"
| "kind_AliasTarget (TResource f) = ''resource''"
| "kind_AliasTarget (TCollection f) = ''collection''"
| "kind_AliasTarget (TLegacyAttribute f) = ''attribute''"
| "kind_AliasTarget (TLegacyBelongsTo f) = ''belongsTo''"
| "kind_AliasTarget (TLegacyHasMany f) = ''hasMany''"

fun kind_FieldSchema :: "('o, 'p) FieldSchema \<Rightarrow> string" where
  "kind_FieldSchema (FGeneric f) = ''field''"
| "kind_FieldSchema (FAlias f) = ''alias''"
| "kind_FieldSchema (FLocal f) = ''@local''"
| "kind_FieldSchema (FObject f) = ''object''"
| "kind_FieldSchema (FSchemaObject f) = ''schema-object''"
| "kind_FieldSchema (FArray f) = ''array''"
| "kind_FieldSchema (FSchemaArray f) = ''schema-array''"
| "kind_FieldSchema (FDerived f) = ''derived''"
| "kind_FieldSchema (FResource f) = ''resource''"
| "kind_FieldSchema (FCollection f) = ''collection''"
| "kind_FieldSchema (FLegacyAttribute f) = ''attribute''"
| "kind_FieldSchema (FLegacyBelongsTo f) = ''belongsTo''"
| "kind_FieldSchema (FLegacyHasMany f) = ''hasMany''"

fun kind_Identity :: "'o Identity \<Rightarrow> string" where
  "kind_Identity (IIdentity f) = ''@id''"
| "kind_Identity (IHash f) = ''@hash''"

fun kind_LegacyRelationshipSchema :: "LegacyRelationshipSchema \<Rightarrow> string" where
  "kind_LegacyRelationshipSchema (RBelongsTo f) = ''belongsTo''"
| "kind_LegacyRelationshipSchema (RHasMany f) = ''hasMany''"

text \<open>The \<open>name\<close> property, which every member of \<open>FieldSchema\<close> declares as a string.\<close>

fun name_FieldSchema :: "('o, 'p) FieldSchema \<Rightarrow> string" where
  "name_FieldSchema (FGeneric f) = GenericField.name f"
| "name_FieldSchema (FAlias f) = AliasField.name f"
| "name_FieldSchema (FLocal f) = LocalField.name f"
| "name_FieldSchema (FObject f) = ObjectField.name f"
| "name_FieldSchema (FSchemaObject f) = SchemaObjectField.name f"
| "name_FieldSchema (FArray f) = ArrayField.name f"
| "name_FieldSchema (FSchemaArray f) = SchemaArrayField.name f"
| "name_FieldSchema (FDerived f) = DerivedField.name f"
| "name_FieldSchema (FResource f) = ResourceField.name f"
| "name_FieldSchema (FCollection f) = CollectionField.name f"
| "name_FieldSchema (FLegacyAttribute f) = LegacyAttributeField.name f"
| "name_FieldSchema (FLegacyBelongsTo f) = LegacyBelongsToField.name f"
| "name_FieldSchema (FLegacyHasMany f) = LegacyHasManyField.name f"

text \<open>
  The \<open>type\<close> property read as a name: \<open>None\<close> where it is omitted or null.
\<close>

fun type_AliasTarget :: "'o AliasTarget \<Rightarrow> string option" where
  "type_AliasTarget (TGeneric f) = GenericField.type f"
| "type_AliasTarget (TObject f) = ObjectField.type f"
| "type_AliasTarget (TSchemaObject f) = Some (SchemaObjectField.type f)"
| "type_AliasTarget (TArray f) = ArrayField.type f"
| "type_AliasTarget (TSchemaArray f) = Some (SchemaArrayField.type f)"
| "type_AliasTarget (TResource f) = Some (ResourceField.type f)"
| "type_AliasTarget (TCollection f) = Some (CollectionField.type f)"
| "type_AliasTarget (TLegacyAttribute f) =
     (case LegacyAttributeField.type f of None \<Rightarrow> None | Some t \<Rightarrow> t)"
| "type_AliasTarget (TLegacyBelongsTo f) = Some (LegacyBelongsToField.type f)"
| "type_AliasTarget (TLegacyHasMany f) = Some (LegacyHasManyField.type f)"

fun type_FieldSchema :: "('o, 'p) FieldSchema \<Rightarrow> string option" where
  "type_FieldSchema (FGeneric f) = GenericField.type f"
| "type_FieldSchema (FAlias f) = (case AliasField.type f of () \<Rightarrow> None)"
| "type_FieldSchema (FLocal f) = LocalField.type f"
| "type_FieldSchema (FObject f) = ObjectField.type f"
| "type_FieldSchema (FSchemaObject f) = Some (SchemaObjectField.type f)"
| "type_FieldSchema (FArray f) = ArrayField.type f"
| "type_FieldSchema (FSchemaArray f) = Some (SchemaArrayField.type f)"
| "type_FieldSchema (FDerived f) = Some (DerivedField.type f)"
| "type_FieldSchema (FResource f) = Some (ResourceField.type f)"
| "type_FieldSchema (FCollection f) = Some (CollectionField.type f)"
| "type_FieldSchema (FLegacyAttribute f) =
     (case LegacyAttributeField.type f of None \<Rightarrow> None | Some t \<Rightarrow> t)"
| "type_FieldSchema (FLegacyBelongsTo f) = Some (LegacyBelongsToField.type f)"
| "type_FieldSchema (FLegacyHasMany f) = Some (LegacyHasManyField.type f)"

subsection \<open>The kinds of each union, as lists\<close>

text \<open>Every kind tag that an object type of the file declares, in the file's order.\<close>

definition field_kinds :: "string list" where
  "field_kinds =
     [''field'', ''alias'', ''@id'', ''@hash'', ''@local'', ''object'', ''schema-object'',
      ''array'', ''schema-array'', ''derived'', ''resource'', ''collection'',
      ''attribute'', ''belongsTo'', ''hasMany'']"

text \<open>The kinds of the members of the union of \<open>AliasField.options\<close>.\<close>

definition alias_target_kinds :: "string list" where
  "alias_target_kinds =
     [''field'', ''object'', ''schema-object'', ''array'', ''schema-array'', ''resource'',
      ''collection'', ''attribute'', ''belongsTo'', ''hasMany'']"

text \<open>The four kinds that the comment on \<open>AliasField\<close> rules out as targets.\<close>

definition alias_excluded_kinds :: "string list" where
  "alias_excluded_kinds = [''@hash'', ''@id'', ''@local'', ''derived'']"

text \<open>The kinds of the members of the union \<open>FieldSchema\<close>.\<close>

definition FieldSchema_kinds :: "string list" where
  "FieldSchema_kinds =
     [''field'', ''alias'', ''@local'', ''object'', ''schema-object'', ''array'',
      ''schema-array'', ''derived'', ''resource'', ''collection'', ''attribute'',
      ''belongsTo'', ''hasMany'']"

text \<open>
  The kinds that the specification's data-model table gives to \<open>FieldSchema\<close>: thirteen
  rows, the last holding the three legacy kinds.
\<close>

definition spec_FieldSchema_kinds :: "string list" where
  "spec_FieldSchema_kinds =
     [''field'', ''alias'', ''@id'', ''@hash'', ''@local'', ''object'', ''schema-object'',
      ''array'', ''schema-array'', ''derived'', ''resource'', ''collection'',
      ''attribute'', ''belongsTo'', ''hasMany'']"

subsection \<open>Identity-bearing fields of a schema\<close>

text \<open>A kind is identity-bearing when it is \<open>@id\<close> or \<open>@hash\<close>.\<close>

definition identity_bearing :: "string \<Rightarrow> bool" where
  "identity_bearing k = (k = ''@id'' \<or> k = ''@hash'')"

text \<open>
  The kinds of all field definitions that a schema holds: the one in the \<open>identity\<close> slot,
  if any, then those of \<open>fields\<close>.
\<close>

definition schema_kinds :: "('o, 'p) ResourceSchema \<Rightarrow> string list" where
  "schema_kinds s =
     (case identity s of None \<Rightarrow> [] | Some i \<Rightarrow> [kind_Identity i])
     @ map kind_FieldSchema (fields' s)"

definition identity_bearing_count :: "('o, 'p) ResourceSchema \<Rightarrow> nat" where
  "identity_bearing_count s = length (filter identity_bearing (schema_kinds s))"

subsection \<open>Alias chains\<close>

text \<open>Each member of the union of \<open>AliasField.options\<close> is a member of \<open>FieldSchema\<close>.\<close>

fun FieldSchema_of_AliasTarget :: "'o AliasTarget \<Rightarrow> ('o, 'p) FieldSchema" where
  "FieldSchema_of_AliasTarget (TGeneric f) = FGeneric f"
| "FieldSchema_of_AliasTarget (TObject f) = FObject f"
| "FieldSchema_of_AliasTarget (TSchemaObject f) = FSchemaObject f"
| "FieldSchema_of_AliasTarget (TArray f) = FArray f"
| "FieldSchema_of_AliasTarget (TSchemaArray f) = FSchemaArray f"
| "FieldSchema_of_AliasTarget (TResource f) = FResource f"
| "FieldSchema_of_AliasTarget (TCollection f) = FCollection f"
| "FieldSchema_of_AliasTarget (TLegacyAttribute f) = FLegacyAttribute f"
| "FieldSchema_of_AliasTarget (TLegacyBelongsTo f) = FLegacyBelongsTo f"
| "FieldSchema_of_AliasTarget (TLegacyHasMany f) = FLegacyHasMany f"

text \<open>The field definition that a field is an alias for, if it is an alias.\<close>

fun alias_target :: "('o, 'p) FieldSchema \<Rightarrow> 'o AliasTarget option" where
  "alias_target (FAlias f) = Some (AliasField.options f)"
| "alias_target _ = None"

text \<open>
  Following the alias links of a field definition until a definition that is not an alias:
  the definition reached and the number of links followed, or \<open>None\<close> when the fuel runs
  out first, as it would on a cycle.
\<close>

fun follow_alias :: "nat \<Rightarrow> ('o, 'p) FieldSchema \<Rightarrow> (('o, 'p) FieldSchema \<times> nat) option" where
  "follow_alias fuel f =
     (case alias_target f of
        None \<Rightarrow> Some (f, 0)
      | Some t \<Rightarrow>
          (case fuel of
             0 \<Rightarrow> None
           | Suc n \<Rightarrow>
               (case follow_alias n (FieldSchema_of_AliasTarget t) of
                  None \<Rightarrow> None
                | Some (g, d) \<Rightarrow> Some (g, Suc d))))"

subsection \<open>The options of the relationship kinds\<close>

text \<open>
  The property names that the object type of \<open>options\<close> declares, for each kind whose
  \<open>options\<close> is an object type written out in the file. The other kinds take an
  \<open>ObjectValue\<close> (\<open>field\<close>, \<open>@hash\<close>, \<open>object\<close>, \<open>array\<close>, \<open>derived\<close>, \<open>attribute\<close>),
  a field definition (\<open>alias\<close>) or declare no \<open>options\<close> (\<open>@id\<close>).
\<close>

definition options_properties :: "(string \<times> string list) list" where
  "options_properties =
     [(''@local'', [''defaultValue'']),
      (''schema-object'', [''polymorphic'', ''type'']),
      (''schema-array'', [''key'', ''polymorphic'', ''type'']),
      (''resource'', [''async'', ''inverse'', ''as'', ''polymorphic'']),
      (''collection'', [''async'', ''inverse'', ''as'', ''polymorphic'']),
      (''belongsTo'', [''async'', ''inverse'', ''as'', ''polymorphic'', ''resetOnRemoteUpdate'']),
      (''hasMany'', [''async'', ''inverse'', ''as'', ''polymorphic'', ''resetOnRemoteUpdate''])]"

text \<open>The names of the properties that an options value of a relationship kind has.\<close>

definition present :: "string \<Rightarrow> 'a option \<Rightarrow> string list" where
  "present n v = (case v of None \<Rightarrow> [] | Some _ \<Rightarrow> [n])"

definition props_ResourceOptions :: "ResourceOptions \<Rightarrow> string list" where
  "props_ResourceOptions x =
     present ''async'' (ResourceOptions.async x) @ present ''inverse'' (ResourceOptions.inverse x)
     @ present ''as'' (ResourceOptions.as x) @ present ''polymorphic'' (ResourceOptions.polymorphic x)"

definition props_CollectionOptions :: "CollectionOptions \<Rightarrow> string list" where
  "props_CollectionOptions x =
     present ''async'' (CollectionOptions.async x)
     @ present ''inverse'' (CollectionOptions.inverse x)
     @ present ''as'' (CollectionOptions.as x)
     @ present ''polymorphic'' (CollectionOptions.polymorphic x)"

definition props_LegacyBelongsToOptions :: "LegacyBelongsToOptions \<Rightarrow> string list" where
  "props_LegacyBelongsToOptions x =
     [''async'', ''inverse''] @ present ''as'' (LegacyBelongsToOptions.as x)
     @ present ''polymorphic'' (LegacyBelongsToOptions.polymorphic x)
     @ present ''resetOnRemoteUpdate'' (LegacyBelongsToOptions.resetOnRemoteUpdate x)"

definition props_LegacyHasManyOptions :: "LegacyHasManyOptions \<Rightarrow> string list" where
  "props_LegacyHasManyOptions x =
     [''async'', ''inverse''] @ present ''as'' (LegacyHasManyOptions.as x)
     @ present ''polymorphic'' (LegacyHasManyOptions.polymorphic x)
     @ present ''resetOnRemoteUpdate'' (LegacyHasManyOptions.resetOnRemoteUpdate x)"

text \<open>The \<open>resetOnRemoteUpdate\<close> option of a legacy relationship, and its value as a boolean.\<close>

fun resetOnRemoteUpdate_of :: "LegacyRelationshipSchema \<Rightarrow> FalseLiteral option" where
  "resetOnRemoteUpdate_of (RBelongsTo f) =
     LegacyBelongsToOptions.resetOnRemoteUpdate (LegacyBelongsToField.options f)"
| "resetOnRemoteUpdate_of (RHasMany f) =
     LegacyHasManyOptions.resetOnRemoteUpdate (LegacyHasManyField.options f)"

definition flag_value :: "FalseLiteral option \<Rightarrow> bool option" where
  "flag_value v = map_option Rep_FalseLiteral v"

text \<open>
  What the comment on \<open>resetOnRemoteUpdate\<close> says happens to the local state of the
  relationship when its remote data is updated: omitted, the local changes are cleared
  (records still new apart); set to false, the local changes found in the remote data are
  committed and the others are kept.
\<close>

datatype RemoteUpdateBehavior = ClearLocalState | CommitLocalChanges

fun remoteUpdateBehavior :: "FalseLiteral option \<Rightarrow> RemoteUpdateBehavior" where
  "remoteUpdateBehavior None = ClearLocalState"
| "remoteUpdateBehavior (Some _) = CommitLocalChanges"

section \<open>The resolvers\<close>

text \<open>
  The resolvers that read a schema are not among the sources at hand. The parts of them
  that the properties below are about are modelled from the specification. Raw cache data
  is an \<open>ObjectValue\<close>, so it has the type \<open>'o\<close>; the resolvers read a key of it through a
  function \<open>get\<close> that they take as a parameter, and \<open>'v\<close> is the type of the values read.
\<close>

text \<open>The errors of the specification's taxonomy.\<close>

datatype error =
    InvalidSchemaError
  | DuplicateSchemaError
  | UnknownSchemaError
  | UnknownTransformError
  | UnknownDerivationError
  | CircularAliasError
  | InvalidAliasTargetError
  | MissingPolymorphicDiscriminatorError
  | TraitMismatchError
  | InvalidIdentityFieldError
  | DuplicateIdentityKeyError

subsection \<open>The discriminator of a polymorphic field\<close>

text \<open>The four kinds of field that may be polymorphic.\<close>

datatype PolymorphicField =
    PSchemaObject SchemaObjectField
  | PSchemaArray SchemaArrayField
  | PResource ResourceField
  | PCollection CollectionField

text \<open>
  The option \<open>type\<close> of such a field. The options of \<open>schema-object\<close> and \<open>schema-array\<close>
  declare it; those of \<open>resource\<close> and \<open>collection\<close> do not, so there it is never provided.
\<close>

fun options_type :: "PolymorphicField \<Rightarrow> string option" where
  "options_type (PSchemaObject f) =
     (case SchemaObjectField.options f of None \<Rightarrow> None | Some x \<Rightarrow> SchemaObjectOptions.type x)"
| "options_type (PSchemaArray f) =
     (case SchemaArrayField.options f of None \<Rightarrow> None | Some x \<Rightarrow> SchemaArrayOptions.type x)"
| "options_type (PResource f) = None"
| "options_type (PCollection f) = None"

text \<open>
  Modelled from the spec: the polymorphism resolver \<open>resolveConcreteSchema\<close> is missing
  from the sources. Its first step reads the discriminator key, \<open>fieldOptions.type\<close> if
  provided, else the literal key \<open>"type"\<close>, from the raw element.
\<close>

definition discriminatorKey :: "string option \<Rightarrow> string" where
  "discriminatorKey fieldOptionsType =
     (case fieldOptionsType of Some k \<Rightarrow> k | None \<Rightarrow> ''type'')"

definition readDiscriminator :: "('o \<Rightarrow> string \<Rightarrow> 'v option) \<Rightarrow> PolymorphicField \<Rightarrow> 'o \<Rightarrow> 'v option" where
  "readDiscriminator get f rawElement = get rawElement (discriminatorKey (options_type f))"

subsection \<open>The key of an element of a schema-array\<close>

text \<open>
  The four strategies of \<open>options.key\<close>. The property has the type
  \<open>'@identity' | '@index' | '@hash' | string\<close> and is optional, as \<open>options\<close> is; the
  comment on it gives \<open>'@identity'\<close> as the default, and a string that is none of the three
  literals is the name of a field.
\<close>

datatype KeyStrategy = KeyIdentity | KeyIndex | KeyHash | KeyField string

definition key_SchemaArrayField :: "SchemaArrayField \<Rightarrow> string option" where
  "key_SchemaArrayField f =
     (case SchemaArrayField.options f of None \<Rightarrow> None | Some x \<Rightarrow> SchemaArrayOptions.key x)"

fun keyStrategy :: "string option \<Rightarrow> KeyStrategy" where
  "keyStrategy None = KeyIdentity"
| "keyStrategy (Some k) =
     (if k = ''@identity'' then KeyIdentity
      else if k = ''@index'' then KeyIndex
      else if k = ''@hash'' then KeyHash
      else KeyField k)"

text \<open>
  A raw element of the array is an object of the cache: it has a reference, which is its
  identity, and a content.
\<close>

record ('r, 'o) Element =
  ref :: 'r
  content :: 'o

text \<open>A key, tagged with the strategy that made it.\<close>

datatype ('r, 'v) KeyValue =
    IdentityKey 'r
  | IndexKey nat
  | HashKey 'v
  | FieldKey string "'v option"

fun strategy_of :: "('r, 'v) KeyValue \<Rightarrow> KeyStrategy" where
  "strategy_of (IdentityKey r) = KeyIdentity"
| "strategy_of (IndexKey i) = KeyIndex"
| "strategy_of (HashKey h) = KeyHash"
| "strategy_of (FieldKey n v) = KeyField n"

text \<open>Whether a schema has a field of kind \<open>field\<close> with the given name.\<close>

definition is_generic_field :: "('o, 'p) ResourceSchema \<Rightarrow> string \<Rightarrow> bool" where
  "is_generic_field schema n =
     list_ex (\<lambda>f. kind_FieldSchema f = ''field'' \<and> name_FieldSchema f = n) (fields' schema)"

text \<open>
  Modelled from the spec: the identity resolver \<open>computeKey\<close> is missing from the sources.
  It takes the key strategy, the element, its index and the prior identity map, and here
  also what it reads from the registries: the schema of the elements and the \<open>@hash\<close>
  transform of that schema.
  \<^item> \<open>@identity\<close>: the key is the raw element's own object identity;
  \<^item> \<open>@index\<close>: the key is the positional index;
  \<^item> \<open>@hash\<close>: the key is the result of the \<open>@hash\<close> transform of the schema on the
    element's raw cache data;
  \<^item> a field name: the key is the raw value of the named field on the element, and the
    resolver fails with \<open>InvalidIdentityFieldError\<close> if the named field is not a field of
    kind \<open>field\<close> of the schema.
\<close>

fun computeKey ::
  "('o \<Rightarrow> string \<Rightarrow> 'v option) \<Rightarrow> ('o, 'p) ResourceSchema \<Rightarrow> ('o \<Rightarrow> 'v) \<Rightarrow>
   KeyStrategy \<Rightarrow> ('r, 'o) Element \<Rightarrow> nat \<Rightarrow> 'm \<Rightarrow> error + ('r, 'v) KeyValue" where
  "computeKey get schema hash KeyIdentity element index priorIdentityMap =
     Inr (IdentityKey (ref element))"
| "computeKey get schema hash KeyIndex element index priorIdentityMap =
     Inr (IndexKey index)"
| "computeKey get schema hash KeyHash element index priorIdentityMap =
     Inr (HashKey (hash (content element)))"
| "computeKey get schema hash (KeyField n) element index priorIdentityMap =
     (if is_generic_field schema n then Inr (FieldKey n (get (content element) n))
      else Inl InvalidIdentityFieldError)"

text \<open>
  Modelled from the spec: the field resolver is missing from the sources. For a
  schema-array field it delegates the identity of each element to the identity resolver,
  with the strategy that \<open>options.key\<close> of the field configures.
\<close>

definition elementKey ::
  "('o \<Rightarrow> string \<Rightarrow> 'v option) \<Rightarrow> ('o, 'p) ResourceSchema \<Rightarrow> ('o \<Rightarrow> 'v) \<Rightarrow>
   SchemaArrayField \<Rightarrow> ('r, 'o) Element \<Rightarrow> nat \<Rightarrow> 'm \<Rightarrow> error + ('r, 'v) KeyValue" where
  "elementKey get schema hash f element index priorIdentityMap =
     computeKey get schema hash (keyStrategy (key_SchemaArrayField f))
       element index priorIdentityMap"

subsection \<open>The hash of a schema-object\<close>

text \<open>
  A record instance, as the field resolver sees it: the raw cache data of the record, the
  values of its \<open>@local\<close> fields, which live outside the cache, and the memoized values of
  its derived fields.
\<close>

record ('o, 'v) RecordInstance =
  cacheData :: 'o
  localValues :: "(string \<times> 'v) list"
  derivedMemo :: "(string \<times> 'v) list"

text \<open>
  Modelled from the spec: the field resolver is missing from the sources. For a field of
  kind \<open>@hash\<close> it ignores \<open>name\<close>, invokes the transform named in \<open>type\<close> with only the
  record's raw cache data, and the options of the field as the source has them, and
  stores nothing back. The resolver returns the value with the record instance as it
  leaves it. A name that the registry does not know is an \<open>UnknownTransformError\<close>.
\<close>

definition resolveHash ::
  "(string \<Rightarrow> ('o \<Rightarrow> 'o option \<Rightarrow> 'v) option) \<Rightarrow> 'o HashField \<Rightarrow> ('o, 'v) RecordInstance \<Rightarrow>
   (error + 'v) \<times> ('o, 'v) RecordInstance" where
  "resolveHash lookupTransform f record =
     (case lookupTransform (HashField.type f) of
        None \<Rightarrow> (Inl UnknownTransformError, record)
      | Some transform \<Rightarrow> (Inr (transform (cacheData record) (HashField.options f)), record))"

section \<open>Properties of the schema model\<close>

subsection \<open>Kinds of the unions\<close>

lemma kind_FieldSchema_in_list: "kind_FieldSchema f \<in> set FieldSchema_kinds"
  by (cases f) (simp_all add: FieldSchema_kinds_def)

lemma kind_AliasTarget_in_list: "kind_AliasTarget t \<in> set alias_target_kinds"
  by (cases t) (simp_all add: alias_target_kinds_def)

lemma kind_AliasTarget_not_alias: "kind_AliasTarget t \<noteq> ''alias''"
  by (cases t) simp_all

lemma kind_FieldSchema_not_identity_bearing: "\<not> identity_bearing (kind_FieldSchema f)"
  by (cases f) (simp_all add: identity_bearing_def)

lemma fields_not_identity_bearing:
  "filter identity_bearing (map kind_FieldSchema fs) = []"
  by (induction fs) (simp_all add: kind_FieldSchema_not_identity_bearing)

lemma identity_bearing_kind_Identity: "identity_bearing (kind_Identity i)"
  by (cases i) (simp_all add: identity_bearing_def)

text \<open>Each kind of a union has a member, and a member of \<open>FieldSchema\<close> with any name.\<close>

lemma alias_target_kinds_inhabited:
  assumes "k \<in> set alias_target_kinds"
  shows "\<exists>t::'o AliasTarget. kind_AliasTarget t = k"
proof -
  let ?opts = "\<lparr>LegacyBelongsToOptions.async = False, inverse = None, as = None,
    polymorphic = None, resetOnRemoteUpdate = None\<rparr>"
  let ?opts' = "\<lparr>LegacyHasManyOptions.async = False, inverse = None, as = None,
    polymorphic = None, resetOnRemoteUpdate = None\<rparr>"
  have "kind_AliasTarget (TGeneric \<lparr>GenericField.name = [], type = None, options = None\<rparr>
          :: 'o AliasTarget) = ''field''"
    "kind_AliasTarget (TObject \<lparr>ObjectField.name = [], type = None, options = None\<rparr>
          :: 'o AliasTarget) = ''object''"
    "kind_AliasTarget (TSchemaObject \<lparr>SchemaObjectField.name = [], type = [], options = None\<rparr>
          :: 'o AliasTarget) = ''schema-object''"
    "kind_AliasTarget (TArray \<lparr>ArrayField.name = [], type = None, options = None\<rparr>
          :: 'o AliasTarget) = ''array''"
    "kind_AliasTarget (TSchemaArray \<lparr>SchemaArrayField.name = [], type = [], options = None\<rparr>
          :: 'o AliasTarget) = ''schema-array''"
    "kind_AliasTarget (TResource \<lparr>ResourceField.name = [], type = [], options = None\<rparr>
          :: 'o AliasTarget) = ''resource''"
    "kind_AliasTarget (TCollection \<lparr>CollectionField.name = [], type = [], options = None\<rparr>
          :: 'o AliasTarget) = ''collection''"
    "kind_AliasTarget (TLegacyAttribute
          \<lparr>LegacyAttributeField.name = [], type = None, options = None\<rparr>
          :: 'o AliasTarget) = ''attribute''"
    "kind_AliasTarget (TLegacyBelongsTo
          \<lparr>LegacyBelongsToField.name = [], type = [], options = ?opts\<rparr>
          :: 'o AliasTarget) = ''belongsTo''"
    "kind_AliasTarget (TLegacyHasMany
          \<lparr>LegacyHasManyField.name = [], type = [], options = ?opts'\<rparr>
          :: 'o AliasTarget) = ''hasMany''"
    by simp_all
  with assms show ?thesis
    unfolding alias_target_kinds_def by (metis set_ConsD empty_iff empty_set)
qed

lemma alias_target_kinds_iff:
  "(\<exists>t::'o AliasTarget. kind_AliasTarget t = k) \<longleftrightarrow> k \<in> set alias_target_kinds"
  using kind_AliasTarget_in_list alias_target_kinds_inhabited by blast

lemma FieldSchema_kinds_inhabited:
  assumes "k \<in> set FieldSchema_kinds"
  shows "\<exists>f::('o, 'p) FieldSchema. kind_FieldSchema f = k \<and> name_FieldSchema f = n"
proof -
  let ?P = "\<lambda>(f::('o, 'p) FieldSchema) k. kind_FieldSchema f = k \<and> name_FieldSchema f = n"
  have "?P (FGeneric \<lparr>GenericField.name = n, type = None, options = None\<rparr>) ''field''"
    "?P (FAlias \<lparr>AliasField.name = n, type = (),
           options = TGeneric \<lparr>GenericField.name = n, type = None, options = None\<rparr>\<rparr>) ''alias''"
    "?P (FLocal \<lparr>LocalField.name = n, type = None, options = None\<rparr>) ''@local''"
    "?P (FObject \<lparr>ObjectField.name = n, type = None, options = None\<rparr>) ''object''"
    "?P (FSchemaObject \<lparr>SchemaObjectField.name = n, type = [], options = None\<rparr>)
       ''schema-object''"
    "?P (FArray \<lparr>ArrayField.name = n, type = None, options = None\<rparr>) ''array''"
    "?P (FSchemaArray \<lparr>SchemaArrayField.name = n, type = [], options = None\<rparr>)
       ''schema-array''"
    "?P (FDerived \<lparr>DerivedField.name = n, type = [], options = None\<rparr>) ''derived''"
    "?P (FResource \<lparr>ResourceField.name = n, type = [], options = None\<rparr>) ''resource''"
    "?P (FCollection \<lparr>CollectionField.name = n, type = [], options = None\<rparr>) ''collection''"
    "?P (FLegacyAttribute \<lparr>LegacyAttributeField.name = n, type = None, options = None\<rparr>)
       ''attribute''"
    "?P (FLegacyBelongsTo \<lparr>LegacyBelongsToField.name = n, type = [],
           options = \<lparr>LegacyBelongsToOptions.async = False, inverse = None, as = None,
             polymorphic = None, resetOnRemoteUpdate = None\<rparr>\<rparr>) ''belongsTo''"
    "?P (FLegacyHasMany \<lparr>LegacyHasManyField.name = n, type = [],
           options = \<lparr>LegacyHasManyOptions.async = False, inverse = None, as = None,
             polymorphic = None, resetOnRemoteUpdate = None\<rparr>\<rparr>) ''hasMany''"
    by simp_all
  with assms show ?thesis
    unfolding FieldSchema_kinds_def by (metis set_ConsD empty_iff empty_set)
qed

subsection \<open>Alias targets\<close>

lemma alias_target_of_target: "alias_target (FieldSchema_of_AliasTarget t) = None"
  by (cases t) simp_all

lemma kind_of_target: "kind_FieldSchema (FieldSchema_of_AliasTarget t) = kind_AliasTarget t"
  by (cases t) simp_all

lemma alias_target_iff: "alias_target f \<noteq> None \<longleftrightarrow> kind_FieldSchema f = ''alias''"
  by (cases f) simp_all

subsection \<open>Options\<close>

lemma present_iff: "m \<in> set (present n v) \<longleftrightarrow> m = n \<and> v \<noteq> None"
  by (cases v) (auto simp add: present_def)

text \<open>An options value has only properties that its kind declares.\<close>

lemma props_ResourceOptions_declared:
  "map_of options_properties ''resource'' = Some ps \<Longrightarrow> set (props_ResourceOptions x) \<subseteq> set ps"
  by (auto simp add: options_properties_def props_ResourceOptions_def present_iff)

lemma props_CollectionOptions_declared:
  "map_of options_properties ''collection'' = Some ps \<Longrightarrow>
     set (props_CollectionOptions x) \<subseteq> set ps"
  by (auto simp add: options_properties_def props_CollectionOptions_def present_iff)

lemma props_LegacyBelongsToOptions_declared:
  "map_of options_properties ''belongsTo'' = Some ps \<Longrightarrow>
     set (props_LegacyBelongsToOptions x) \<subseteq> set ps"
  by (auto simp add: options_properties_def props_LegacyBelongsToOptions_def present_iff)

lemma props_LegacyHasManyOptions_declared:
  "map_of options_properties ''hasMany'' = Some ps \<Longrightarrow>
     set (props_LegacyHasManyOptions x) \<subseteq> set ps"
  by (auto simp add: options_properties_def props_LegacyHasManyOptions_def present_iff)

lemma Rep_FalseLiteral_False: "Rep_FalseLiteral x = False"
  using Rep_FalseLiteral [of x] by simp

lemma flag_value_cases:
  "flag_value v = None \<and> v = None \<or> flag_value v = Some False \<and> v \<noteq> None"
  by (cases v) (simp_all add: flag_value_def Rep_FalseLiteral_False)

subsection \<open>Keys\<close>

lemma is_generic_field_iff:
  "is_generic_field schema n
     \<longleftrightarrow> (\<exists>g. FGeneric g \<in> set (fields' schema) \<and> GenericField.name g = n)"
proof
  assume "is_generic_field schema n"
  then obtain f where f: "f \<in> set (fields' schema)" "kind_FieldSchema f = ''field''"
      "name_FieldSchema f = n"
    unfolding is_generic_field_def list_ex_iff by blast
  from f(2) obtain g where "f = FGeneric g" by (cases f) simp_all
  with f show "\<exists>g. FGeneric g \<in> set (fields' schema) \<and> GenericField.name g = n"
    by auto
next
  assume "\<exists>g. FGeneric g \<in> set (fields' schema) \<and> GenericField.name g = n"
  then obtain g where "FGeneric g \<in> set (fields' schema)" "GenericField.name g = n"
    by blast
  then show "is_generic_field schema n"
    unfolding is_generic_field_def list_ex_iff
    by (intro bexI [of _ "FGeneric g"]) simp_all
qed

lemma computeKey_strategy:
  "computeKey get schema hash s e i m = Inr k \<Longrightarrow> strategy_of k = s"
  by (cases s) (auto split: if_splits)

section \<open>The claims\<close>

text \<open>
  C1: a schema holds at most one identity-bearing field definition. The only place for one
  is the \<open>identity\<close> slot, which holds an \<open>@id\<close> field, a \<open>@hash\<close> field or null; no member
  of \<open>fields\<close> has the kind \<open>@id\<close> or \<open>@hash\<close>. So the number of identity-bearing field
  definitions of a schema is zero when the slot is null and one otherwise.
\<close>

theorem at_most_one_identity_bearing_field:
  "identity_bearing_count s \<le> 1
   \<and> identity_bearing_count s = (case identity s of None \<Rightarrow> 0 | Some i \<Rightarrow> 1)
   \<and> filter identity_bearing (map kind_FieldSchema (fields' s)) = []"
  by (simp add: identity_bearing_count_def schema_kinds_def fields_not_identity_bearing
      identity_bearing_kind_Identity split: option.split)

text \<open>
  C2, as the code has it: among the kinds that the file declares, the kinds that the target
  of an alias may have are exactly those that are none of \<open>@hash\<close>, \<open>@id\<close>, \<open>@local\<close>,
  \<open>derived\<close> and not \<open>alias\<close> either.
\<close>

theorem alias_target_kinds_exact:
  "k \<in> set field_kinds \<Longrightarrow>
     (\<exists>t::'o AliasTarget. kind_AliasTarget t = k)
       \<longleftrightarrow> (k \<notin> set alias_excluded_kinds \<and> k \<noteq> ''alias'')"
  unfolding alias_target_kinds_iff
  by (auto simp add: field_kinds_def alias_target_kinds_def alias_excluded_kinds_def)

theorem alias_target_kinds_exact_witness:
  "''resource'' \<in> set field_kinds
   \<and> (\<exists>t::unit AliasTarget. kind_AliasTarget t = ''resource'')"
  using alias_target_kinds_exact [of "''resource''", where 'o = unit]
  by (simp add: field_kinds_def alias_excluded_kinds_def)

text \<open>
  C2 as stated fails at the kind \<open>alias\<close>: it is a declared kind and none of the four
  excluded ones, and no alias target has it.
\<close>

theorem alias_is_not_an_alias_target_counterexample:
  "''alias'' \<in> set field_kinds \<and> ''alias'' \<notin> set alias_excluded_kinds
   \<and> ''alias'' \<notin> set alias_target_kinds
   \<and> \<not> (\<exists>t::unit AliasTarget. kind_AliasTarget t = ''alias'')"
  unfolding alias_target_kinds_iff
  by (simp add: field_kinds_def alias_target_kinds_def alias_excluded_kinds_def)

text \<open>
  C3, as the code has it: \<open>FieldSchema\<close> is a closed union over thirteen kinds, which are
  \<open>field\<close>, \<open>alias\<close>, \<open>@local\<close>, \<open>object\<close>, \<open>schema-object\<close>, \<open>array\<close>, \<open>schema-array\<close>,
  \<open>derived\<close>, \<open>resource\<close>, \<open>collection\<close>, \<open>attribute\<close>, \<open>belongsTo\<close> and \<open>hasMany\<close>; every
  member has a kind of that list and a name that is a string, and each kind has members of
  every name.
\<close>

theorem FieldSchema_kinds_exact:
  "{k. \<exists>f::('o, 'p) FieldSchema. kind_FieldSchema f = k} = set FieldSchema_kinds
   \<and> length FieldSchema_kinds = 13 \<and> distinct FieldSchema_kinds
   \<and> (\<forall>k \<in> set FieldSchema_kinds. \<forall>n.
        \<exists>f::('o, 'p) FieldSchema. kind_FieldSchema f = k \<and> name_FieldSchema f = n)"
proof -
  have "{k. \<exists>f::('o, 'p) FieldSchema. kind_FieldSchema f = k} = set FieldSchema_kinds"
    using kind_FieldSchema_in_list FieldSchema_kinds_inhabited by blast
  moreover have "length FieldSchema_kinds = 13 \<and> distinct FieldSchema_kinds"
    by (simp add: FieldSchema_kinds_def)
  ultimately show ?thesis
    using FieldSchema_kinds_inhabited by blast
qed

theorem FieldSchema_kinds_exact_witness:
  "''alias'' \<in> set FieldSchema_kinds
   \<and> (\<exists>f::(unit, unit) FieldSchema.
        kind_FieldSchema f = ''alias'' \<and> name_FieldSchema f = ''displayName'')"
  using FieldSchema_kinds_exact [where 'o = unit and 'p = unit]
  by (simp add: FieldSchema_kinds_def)

text \<open>
  C3 as stated fails at the kinds \<open>@id\<close> and \<open>@hash\<close>: the table of the specification
  lists them, and no member of \<open>FieldSchema\<close> has either.
\<close>

theorem FieldSchema_has_no_identity_kind_counterexample:
  "''@id'' \<in> set spec_FieldSchema_kinds \<and> ''@id'' \<notin> set FieldSchema_kinds
   \<and> \<not> (\<exists>f::(unit, unit) FieldSchema. kind_FieldSchema f = ''@id'')
   \<and> ''@hash'' \<in> set spec_FieldSchema_kinds \<and> ''@hash'' \<notin> set FieldSchema_kinds
   \<and> \<not> (\<exists>f::(unit, unit) FieldSchema. kind_FieldSchema f = ''@hash'')"
proof -
  have out: "''@id'' \<notin> set FieldSchema_kinds" "''@hash'' \<notin> set FieldSchema_kinds"
    by (simp_all add: FieldSchema_kinds_def)
  have "\<not> (\<exists>f::(unit, unit) FieldSchema. kind_FieldSchema f = ''@id'')"
    using out(1) kind_FieldSchema_in_list by metis
  moreover have "\<not> (\<exists>f::(unit, unit) FieldSchema. kind_FieldSchema f = ''@hash'')"
    using out(2) kind_FieldSchema_in_list by metis
  moreover have "''@id'' \<in> set spec_FieldSchema_kinds" "''@hash'' \<in> set spec_FieldSchema_kinds"
    by (simp_all add: spec_FieldSchema_kinds_def)
  ultimately show ?thesis
    using out by blast
qed

text \<open>
  C4: the resolution of a \<open>@hash\<close> field gives the transform named in the mandatory
  \<open>type\<close> of the field the raw cache data of the record and the options of the field,
  nothing else of the record: two record instances with the same cache data get the same
  result, whatever their local and derived values are. The resolution leaves the record
  instance as it was, so the hash is not stored back, and it does not depend on the \<open>name\<close>
  of the field.
\<close>

theorem hash_reads_only_cache_data:
  "(cacheData r = cacheData r' \<longrightarrow>
      fst (resolveHash lookupTransform f r) = fst (resolveHash lookupTransform f r'))
   \<and> snd (resolveHash lookupTransform f r) = r
   \<and> resolveHash lookupTransform (f\<lparr>HashField.name := n\<rparr>) r = resolveHash lookupTransform f r
   \<and> (\<forall>t. lookupTransform (HashField.type f) = Some t \<longrightarrow>
        fst (resolveHash lookupTransform f r) = Inr (t (cacheData r) (HashField.options f)))"
  by (simp add: resolveHash_def split: option.split)

theorem hash_reads_only_cache_data_witness:
  "cacheData \<lparr>cacheData = [(''street'', ''Main'')], localValues = [(''isDestroyed'', ''no'')],
       derivedMemo = []\<rparr>
     = cacheData \<lparr>cacheData = [(''street'', ''Main'')], localValues = [],
       derivedMemo = [(''label'', ''Main St'')]\<rparr>
   \<and> map_of [(''addressHash'', \<lambda>raw opts. concat (map snd raw))] ''addressHash''
       = Some (\<lambda>raw opts. concat (map snd raw))
   \<and> fst (resolveHash (map_of [(''addressHash'', \<lambda>raw opts. concat (map snd raw))])
       \<lparr>HashField.name = None, type = ''addressHash'', options = None\<rparr>
       \<lparr>cacheData = [(''street'', ''Main'')], localValues = [(''isDestroyed'', ''no'')],
        derivedMemo = []\<rparr>)
     = Inr ''Main''
   \<and> fst (resolveHash (map_of [(''addressHash'', \<lambda>raw opts. concat (map snd raw))])
       \<lparr>HashField.name = None, type = ''addressHash'', options = None\<rparr>
       \<lparr>cacheData = [(''street'', ''Main'')], localValues = [],
        derivedMemo = [(''label'', ''Main St'')]\<rparr>)
     = Inr ''Main''"
  using hash_reads_only_cache_data [of
      "\<lparr>cacheData = [(''street'', ''Main'')], localValues = [(''isDestroyed'', ''no'')],
        derivedMemo = []\<rparr>"
      "\<lparr>cacheData = [(''street'', ''Main'')], localValues = [],
        derivedMemo = [(''label'', ''Main St'')]\<rparr>"
      "map_of [(''addressHash'', \<lambda>raw opts. concat (map snd raw))]"
      "\<lparr>HashField.name = None, type = ''addressHash'', options = None\<rparr>"]
  by (simp add: resolveHash_def)

text \<open>
  C5: for a polymorphic field and a raw element, the discriminator is read from the raw
  element at the key \<open>options.type\<close> of the field when that option is provided and at the
  literal key \<open>"type"\<close> when it is not: when the field has no \<open>options\<close>, or \<open>options\<close>
  without \<open>type\<close>. The options of a schema-object and of a schema-array field may provide
  \<open>type\<close>; those of a resource and of a collection field cannot, so for them the key is
  always \<open>"type"\<close>.
\<close>

theorem discriminator_key_default:
  "(\<forall>x k. SchemaObjectField.options so = Some x \<and> SchemaObjectOptions.type x = Some k \<longrightarrow>
      readDiscriminator get (PSchemaObject so) rawElement = get rawElement k)
   \<and> (\<forall>x. SchemaObjectField.options so = Some x \<and> SchemaObjectOptions.type x = None \<longrightarrow>
      readDiscriminator get (PSchemaObject so) rawElement = get rawElement ''type'')
   \<and> (SchemaObjectField.options so = None \<longrightarrow>
      readDiscriminator get (PSchemaObject so) rawElement = get rawElement ''type'')
   \<and> (\<forall>x k. SchemaArrayField.options sa = Some x \<and> SchemaArrayOptions.type x = Some k \<longrightarrow>
      readDiscriminator get (PSchemaArray sa) rawElement = get rawElement k)
   \<and> (\<forall>x. SchemaArrayField.options sa = Some x \<and> SchemaArrayOptions.type x = None \<longrightarrow>
      readDiscriminator get (PSchemaArray sa) rawElement = get rawElement ''type'')
   \<and> (SchemaArrayField.options sa = None \<longrightarrow>
      readDiscriminator get (PSchemaArray sa) rawElement = get rawElement ''type'')
   \<and> readDiscriminator get (PResource rf) rawElement = get rawElement ''type''
   \<and> readDiscriminator get (PCollection cf) rawElement = get rawElement ''type''"
  by (simp add: readDiscriminator_def discriminatorKey_def)

theorem discriminator_key_default_witness:
  "readDiscriminator map_of (PSchemaObject \<lparr>SchemaObjectField.name = ''address'',
       type = ''place'', options = Some \<lparr>SchemaObjectOptions.polymorphic = Some True,
         type = Some ''kind''\<rparr>\<rparr>) [(''type'', ''a''), (''kind'', ''b'')] = Some ''b''
   \<and> readDiscriminator map_of (PSchemaArray \<lparr>SchemaArrayField.name = ''items'', type = ''item'',
       options = Some \<lparr>SchemaArrayOptions.key = None, polymorphic = Some True,
         type = None\<rparr>\<rparr>) [(''type'', ''a''), (''kind'', ''b'')] = Some ''a''
   \<and> readDiscriminator map_of (PResource \<lparr>ResourceField.name = ''owner'', type = ''person'',
       options = Some \<lparr>ResourceOptions.async = None, inverse = None, as = None,
         polymorphic = Some True\<rparr>\<rparr>) [(''type'', ''a''), (''kind'', ''b'')] = Some ''a''
   \<and> readDiscriminator map_of (PCollection \<lparr>CollectionField.name = ''pets'', type = ''pet'',
       options = None\<rparr>) [(''type'', ''a''), (''kind'', ''b'')] = Some ''a''"
  using discriminator_key_default [of
      "\<lparr>SchemaObjectField.name = ''address'', type = ''place'',
        options = Some \<lparr>SchemaObjectOptions.polymorphic = Some True, type = Some ''kind''\<rparr>\<rparr>"
      map_of "[(''type'', ''a''), (''kind'', ''b'')]"
      "\<lparr>SchemaArrayField.name = ''items'', type = ''item'',
        options = Some \<lparr>SchemaArrayOptions.key = None, polymorphic = Some True,
          type = None\<rparr>\<rparr>"
      "\<lparr>ResourceField.name = ''owner'', type = ''person'',
        options = Some \<lparr>ResourceOptions.async = None, inverse = None, as = None,
          polymorphic = Some True\<rparr>\<rparr>"
      "\<lparr>CollectionField.name = ''pets'', type = ''pet'', options = None\<rparr>"]
  by simp

text \<open>
  C6: the key of an element of a schema-array is decided by \<open>options.key\<close> of the field
  alone. Without \<open>options\<close>, without \<open>options.key\<close> or with the key \<open>@identity\<close> it is the
  reference of the raw element, so that elements with different references have different
  keys; with \<open>@index\<close> it is the index; with \<open>@hash\<close> it is the hash of the raw element;
  with any other string it is the raw value of the field of that name when the schema has
  a field of kind \<open>field\<close> with that name, and \<open>InvalidIdentityFieldError\<close> otherwise. No
  strategy falls back to another.
\<close>

theorem key_strategy_default_and_exclusive:
  "(SchemaArrayField.options f = None \<longrightarrow>
      elementKey get schema hash f e i m = Inr (IdentityKey (ref e)))
   \<and> (\<forall>x. SchemaArrayField.options f = Some x \<and> SchemaArrayOptions.key x = None \<longrightarrow>
      elementKey get schema hash f e i m = Inr (IdentityKey (ref e)))
   \<and> (\<forall>x. SchemaArrayField.options f = Some x
        \<and> SchemaArrayOptions.key x = Some ''@identity'' \<longrightarrow>
      elementKey get schema hash f e i m = Inr (IdentityKey (ref e)))
   \<and> (\<forall>x. SchemaArrayField.options f = Some x \<and> SchemaArrayOptions.key x = Some ''@index'' \<longrightarrow>
      elementKey get schema hash f e i m = Inr (IndexKey i))
   \<and> (\<forall>x. SchemaArrayField.options f = Some x \<and> SchemaArrayOptions.key x = Some ''@hash'' \<longrightarrow>
      elementKey get schema hash f e i m = Inr (HashKey (hash (content e))))
   \<and> (\<forall>x n. SchemaArrayField.options f = Some x \<and> SchemaArrayOptions.key x = Some n
        \<and> n \<noteq> ''@identity'' \<and> n \<noteq> ''@index'' \<and> n \<noteq> ''@hash''
        \<and> (\<exists>g. FGeneric g \<in> set (fields' schema) \<and> GenericField.name g = n) \<longrightarrow>
      elementKey get schema hash f e i m = Inr (FieldKey n (get (content e) n)))
   \<and> (\<forall>x n. SchemaArrayField.options f = Some x \<and> SchemaArrayOptions.key x = Some n
        \<and> n \<noteq> ''@identity'' \<and> n \<noteq> ''@index'' \<and> n \<noteq> ''@hash''
        \<and> \<not> (\<exists>g. FGeneric g \<in> set (fields' schema) \<and> GenericField.name g = n) \<longrightarrow>
      elementKey get schema hash f e i m = Inl InvalidIdentityFieldError)
   \<and> (\<forall>e' x. ref e \<noteq> ref e'
        \<and> (SchemaArrayField.options f = None
            \<or> SchemaArrayField.options f = Some x \<and> SchemaArrayOptions.key x = None) \<longrightarrow>
      elementKey get schema hash f e i m \<noteq> elementKey get schema hash f e' i m)"
  unfolding is_generic_field_iff [symmetric]
  by (auto simp add: elementKey_def key_SchemaArrayField_def)

theorem key_strategy_default_and_exclusive_witness:
  "elementKey map_of
       \<lparr>legacy = None, identity = None, type = ''item'', traits = None,
        fields' = [FGeneric \<lparr>GenericField.name = ''a'', type = None,
          options = (None :: (string \<times> string) list option)\<rparr>
          :: ((string \<times> string) list, unit) FieldSchema]\<rparr>
       (\<lambda>raw. concat (map snd raw))
       \<lparr>SchemaArrayField.name = ''items'', type = ''item'', options = None\<rparr>
       \<lparr>ref = (7::nat), content = [(''a'', ''1'')]\<rparr> 3 ()
     = Inr (IdentityKey 7)
   \<and> elementKey map_of
       \<lparr>legacy = None, identity = None, type = ''item'', traits = None,
        fields' = [FGeneric \<lparr>GenericField.name = ''a'', type = None,
          options = (None :: (string \<times> string) list option)\<rparr>
          :: ((string \<times> string) list, unit) FieldSchema]\<rparr>
       (\<lambda>raw. concat (map snd raw))
       \<lparr>SchemaArrayField.name = ''items'', type = ''item'',
          options = Some \<lparr>SchemaArrayOptions.key = Some ''@index'', polymorphic = None,
            type = None\<rparr>\<rparr>
       \<lparr>ref = (7::nat), content = [(''a'', ''1'')]\<rparr> 3 ()
     = Inr (IndexKey 3)
   \<and> elementKey map_of
       \<lparr>legacy = None, identity = None, type = ''item'', traits = None,
        fields' = [FGeneric \<lparr>GenericField.name = ''a'', type = None,
          options = (None :: (string \<times> string) list option)\<rparr>
          :: ((string \<times> string) list, unit) FieldSchema]\<rparr>
       (\<lambda>raw. concat (map snd raw))
       \<lparr>SchemaArrayField.name = ''items'', type = ''item'',
          options = Some \<lparr>SchemaArrayOptions.key = Some ''@hash'', polymorphic = None,
            type = None\<rparr>\<rparr>
       \<lparr>ref = (7::nat), content = [(''a'', ''1'')]\<rparr> 3 ()
     = Inr (HashKey ''1'')
   \<and> elementKey map_of
       \<lparr>legacy = None, identity = None, type = ''item'', traits = None,
        fields' = [FGeneric \<lparr>GenericField.name = ''a'', type = None,
          options = (None :: (string \<times> string) list option)\<rparr>
          :: ((string \<times> string) list, unit) FieldSchema]\<rparr>
       (\<lambda>raw. concat (map snd raw))
       \<lparr>SchemaArrayField.name = ''items'', type = ''item'',
          options = Some \<lparr>SchemaArrayOptions.key = Some ''a'', polymorphic = None,
            type = None\<rparr>\<rparr>
       \<lparr>ref = (7::nat), content = [(''a'', ''1'')]\<rparr> 3 ()
     = Inr (FieldKey ''a'' (Some ''1''))
   \<and> elementKey map_of
       \<lparr>legacy = None, identity = None, type = ''item'', traits = None,
        fields' = [FGeneric \<lparr>GenericField.name = ''a'', type = None,
          options = (None :: (string \<times> string) list option)\<rparr>
          :: ((string \<times> string) list, unit) FieldSchema]\<rparr>
       (\<lambda>raw. concat (map snd raw))
       \<lparr>SchemaArrayField.name = ''items'', type = ''item'',
          options = Some \<lparr>SchemaArrayOptions.key = Some ''b'', polymorphic = None,
            type = None\<rparr>\<rparr>
       \<lparr>ref = (7::nat), content = [(''a'', ''1'')]\<rparr> 3 ()
     = Inl InvalidIdentityFieldError"
  using key_strategy_default_and_exclusive [of
      "\<lparr>SchemaArrayField.name = ''items'', type = ''item'', options = None\<rparr>"
      map_of
      "\<lparr>legacy = None, identity = None, type = ''item'', traits = None,
        fields' = [FGeneric \<lparr>GenericField.name = ''a'', type = None,
          options = (None :: (string \<times> string) list option)\<rparr>
          :: ((string \<times> string) list, unit) FieldSchema]\<rparr>"
      "\<lambda>raw. concat (map snd raw)"
      "\<lparr>ref = (7::nat), content = [(''a'', ''1'')]\<rparr>" 3 "()"]
    key_strategy_default_and_exclusive [of
      "\<lparr>SchemaArrayField.name = ''items'', type = ''item'',
          options = Some \<lparr>SchemaArrayOptions.key = Some ''@index'', polymorphic = None,
            type = None\<rparr>\<rparr>"
      map_of
      "\<lparr>legacy = None, identity = None, type = ''item'', traits = None,
        fields' = [FGeneric \<lparr>GenericField.name = ''a'', type = None,
          options = (None :: (string \<times> string) list option)\<rparr>
          :: ((string \<times> string) list, unit) FieldSchema]\<rparr>"
      "\<lambda>raw. concat (map snd raw)"
      "\<lparr>ref = (7::nat), content = [(''a'', ''1'')]\<rparr>" 3 "()"]
    key_strategy_default_and_exclusive [of
      "\<lparr>SchemaArrayField.name = ''items'', type = ''item'',
          options = Some \<lparr>SchemaArrayOptions.key = Some ''@hash'', polymorphic = None,
            type = None\<rparr>\<rparr>"
      map_of
      "\<lparr>legacy = None, identity = None, type = ''item'', traits = None,
        fields' = [FGeneric \<lparr>GenericField.name = ''a'', type = None,
          options = (None :: (string \<times> string) list option)\<rparr>
          :: ((string \<times> string) list, unit) FieldSchema]\<rparr>"
      "\<lambda>raw. concat (map snd raw)"
      "\<lparr>ref = (7::nat), content = [(''a'', ''1'')]\<rparr>" 3 "()"]
    key_strategy_default_and_exclusive [of
      "\<lparr>SchemaArrayField.name = ''items'', type = ''item'',
          options = Some \<lparr>SchemaArrayOptions.key = Some ''a'', polymorphic = None,
            type = None\<rparr>\<rparr>"
      map_of
      "\<lparr>legacy = None, identity = None, type = ''item'', traits = None,
        fields' = [FGeneric \<lparr>GenericField.name = ''a'', type = None,
          options = (None :: (string \<times> string) list option)\<rparr>
          :: ((string \<times> string) list, unit) FieldSchema]\<rparr>"
      "\<lambda>raw. concat (map snd raw)"
      "\<lparr>ref = (7::nat), content = [(''a'', ''1'')]\<rparr>" 3 "()"]
    key_strategy_default_and_exclusive [of
      "\<lparr>SchemaArrayField.name = ''items'', type = ''item'',
          options = Some \<lparr>SchemaArrayOptions.key = Some ''b'', polymorphic = None,
            type = None\<rparr>\<rparr>"
      map_of
      "\<lparr>legacy = None, identity = None, type = ''item'', traits = None,
        fields' = [FGeneric \<lparr>GenericField.name = ''a'', type = None,
          options = (None :: (string \<times> string) list option)\<rparr>
          :: ((string \<times> string) list, unit) FieldSchema]\<rparr>"
      "\<lambda>raw. concat (map snd raw)"
      "\<lparr>ref = (7::nat), content = [(''a'', ''1'')]\<rparr>" 3 "()"]
  by (simp add: elementKey_def key_SchemaArrayField_def is_generic_field_def)

text \<open>
  C7: among the options that the file declares, \<open>resetOnRemoteUpdate\<close> is declared for
  the kinds \<open>belongsTo\<close> and \<open>hasMany\<close> and for no other. An options value of a \<open>resource\<close>
  or \<open>collection\<close> field never has the property; an options value of a \<open>belongsTo\<close> or
  \<open>hasMany\<close> field has it unless it is omitted.
\<close>

theorem resetOnRemoteUpdate_only_on_legacy:
  "(\<forall>(k, ps) \<in> set options_properties.
      ''resetOnRemoteUpdate'' \<in> set ps \<longleftrightarrow> k = ''belongsTo'' \<or> k = ''hasMany'')
   \<and> ''resetOnRemoteUpdate'' \<notin> set (props_ResourceOptions ro)
   \<and> ''resetOnRemoteUpdate'' \<notin> set (props_CollectionOptions co)
   \<and> (''resetOnRemoteUpdate'' \<in> set (props_LegacyBelongsToOptions bo)
        \<longleftrightarrow> LegacyBelongsToOptions.resetOnRemoteUpdate bo \<noteq> None)
   \<and> (''resetOnRemoteUpdate'' \<in> set (props_LegacyHasManyOptions ho)
        \<longleftrightarrow> LegacyHasManyOptions.resetOnRemoteUpdate ho \<noteq> None)"
proof -
  have "\<forall>(k, ps) \<in> set options_properties.
      ''resetOnRemoteUpdate'' \<in> set ps \<longleftrightarrow> k = ''belongsTo'' \<or> k = ''hasMany''"
    by (simp add: options_properties_def)
  moreover have "''resetOnRemoteUpdate'' \<notin> set (props_ResourceOptions ro)"
    by (simp add: props_ResourceOptions_def present_iff)
  moreover have "''resetOnRemoteUpdate'' \<notin> set (props_CollectionOptions co)"
    by (simp add: props_CollectionOptions_def present_iff)
  moreover have "''resetOnRemoteUpdate'' \<in> set (props_LegacyBelongsToOptions bo)
        \<longleftrightarrow> LegacyBelongsToOptions.resetOnRemoteUpdate bo \<noteq> None"
    by (simp add: props_LegacyBelongsToOptions_def present_iff)
  moreover have "''resetOnRemoteUpdate'' \<in> set (props_LegacyHasManyOptions ho)
        \<longleftrightarrow> LegacyHasManyOptions.resetOnRemoteUpdate ho \<noteq> None"
    by (simp add: props_LegacyHasManyOptions_def present_iff)
  ultimately show ?thesis by blast
qed

theorem resetOnRemoteUpdate_only_on_legacy_witness:
  "(''collection'', [''async'', ''inverse'', ''as'', ''polymorphic'']) \<in> set options_properties
   \<and> ''resetOnRemoteUpdate'' \<notin> set [''async'', ''inverse'', ''as'', ''polymorphic'']
   \<and> ''resetOnRemoteUpdate'' \<notin> set (props_ResourceOptions
        \<lparr>ResourceOptions.async = Some True, inverse = Some (Some ''owner''), as = None,
         polymorphic = None\<rparr>)
   \<and> ''resetOnRemoteUpdate'' \<notin> set (props_CollectionOptions
        \<lparr>CollectionOptions.async = Some False, inverse = Some None, as = None,
         polymorphic = Some True\<rparr>)
   \<and> ''resetOnRemoteUpdate'' \<notin> set (props_LegacyBelongsToOptions
        \<lparr>LegacyBelongsToOptions.async = True, inverse = Some ''pets'', as = None,
         polymorphic = None, resetOnRemoteUpdate = None\<rparr>)
   \<and> ''resetOnRemoteUpdate'' \<in> set (props_LegacyHasManyOptions
        \<lparr>LegacyHasManyOptions.async = False, inverse = None, as = None, polymorphic = None,
         resetOnRemoteUpdate = Some (Abs_FalseLiteral False)\<rparr>)"
  using resetOnRemoteUpdate_only_on_legacy [of
      "\<lparr>ResourceOptions.async = Some True, inverse = Some (Some ''owner''), as = None,
         polymorphic = None\<rparr>"
      "\<lparr>CollectionOptions.async = Some False, inverse = Some None, as = None,
         polymorphic = Some True\<rparr>"
      "\<lparr>LegacyBelongsToOptions.async = True, inverse = Some ''pets'', as = None,
         polymorphic = None, resetOnRemoteUpdate = None\<rparr>"
      "\<lparr>LegacyHasManyOptions.async = False, inverse = None, as = None, polymorphic = None,
         resetOnRemoteUpdate = Some (Abs_FalseLiteral False)\<rparr>"]
  by (simp add: options_properties_def)

text \<open>
  C8: the \<open>type\<close> of an alias field is null, so an alias names no transform of its own;
  the target in \<open>options\<close> carries its own \<open>type\<close>.
\<close>

theorem alias_type_is_null:
  "kind_FieldSchema f = ''alias'' \<Longrightarrow>
     type_FieldSchema f = None \<and> (\<exists>a. f = FAlias a \<and> AliasField.type a = ())"
  by (cases f) (simp_all split: unit.split)

theorem alias_type_is_null_witness:
  "kind_FieldSchema (FAlias \<lparr>AliasField.name = ''displayName'', type = (),
       options = TGeneric \<lparr>GenericField.name = ''name'', type = Some ''string'',
         options = (None :: unit option)\<rparr>\<rparr> :: (unit, unit) FieldSchema) = ''alias''
   \<and> type_FieldSchema (FAlias \<lparr>AliasField.name = ''displayName'', type = (),
       options = TGeneric \<lparr>GenericField.name = ''name'', type = Some ''string'',
         options = (None :: unit option)\<rparr>\<rparr> :: (unit, unit) FieldSchema) = None
   \<and> type_AliasTarget (TGeneric \<lparr>GenericField.name = ''name'', type = Some ''string'',
         options = (None :: unit option)\<rparr>) = Some ''string''"
  using alias_type_is_null [of "FAlias \<lparr>AliasField.name = ''displayName'', type = (),
       options = TGeneric \<lparr>GenericField.name = ''name'', type = Some ''string'',
         options = (None :: unit option)\<rparr>\<rparr> :: (unit, unit) FieldSchema"]
  by simp

text \<open>
  C9: the target of an alias is never an alias. Following the links of an alias reaches a
  field definition that is not an alias after exactly one link, with any fuel that allows
  one link, so following never runs into a cycle; a field that is not an alias is reached
  after no link.
\<close>

theorem alias_never_targets_alias:
  "kind_AliasTarget t \<noteq> ''alias''
   \<and> ''alias'' \<notin> set alias_target_kinds
   \<and> alias_target (FieldSchema_of_AliasTarget t :: ('o, 'p) FieldSchema) = None
   \<and> (kind_FieldSchema f = ''alias'' \<longrightarrow>
        (\<exists>g. follow_alias (Suc n) f = Some (g, 1) \<and> kind_FieldSchema g \<noteq> ''alias''))
   \<and> (kind_FieldSchema f \<noteq> ''alias'' \<longrightarrow> follow_alias n f = Some (f, 0))"
proof -
  have "\<exists>g. follow_alias (Suc n) f = Some (g, 1) \<and> kind_FieldSchema g \<noteq> ''alias''"
    if "kind_FieldSchema f = ''alias''"
  proof -
    from that obtain a where f: "f = FAlias a" by (cases f) simp_all
    let ?g = "FieldSchema_of_AliasTarget (AliasField.options a) :: ('a, 'b) FieldSchema"
    have "follow_alias (Suc n) f = Some (?g, 1)"
      by (simp add: f alias_target_of_target)
    moreover have "kind_FieldSchema ?g \<noteq> ''alias''"
      by (simp add: kind_of_target kind_AliasTarget_not_alias)
    ultimately show ?thesis by blast
  qed
  moreover have "follow_alias n f = Some (f, 0)" if "kind_FieldSchema f \<noteq> ''alias''"
    using that alias_target_iff [of f] by simp
  moreover have "''alias'' \<notin> set alias_target_kinds"
    by (simp add: alias_target_kinds_def)
  ultimately show ?thesis
    using kind_AliasTarget_not_alias alias_target_of_target by blast
qed

theorem alias_never_targets_alias_witness:
  "kind_FieldSchema (FAlias \<lparr>AliasField.name = ''displayName'', type = (),
       options = TGeneric \<lparr>GenericField.name = ''name'', type = None,
         options = (None :: unit option)\<rparr>\<rparr> :: (unit, unit) FieldSchema) = ''alias''
   \<and> follow_alias 1 (FAlias \<lparr>AliasField.name = ''displayName'', type = (),
       options = TGeneric \<lparr>GenericField.name = ''name'', type = None,
         options = (None :: unit option)\<rparr>\<rparr> :: (unit, unit) FieldSchema)
     = Some (FGeneric \<lparr>GenericField.name = ''name'', type = None, options = None\<rparr>, 1)
   \<and> kind_FieldSchema (FGeneric \<lparr>GenericField.name = ''name'', type = None,
         options = (None :: unit option)\<rparr> :: (unit, unit) FieldSchema) \<noteq> ''alias''
   \<and> follow_alias 0 (FGeneric \<lparr>GenericField.name = ''name'', type = None,
         options = (None :: unit option)\<rparr> :: (unit, unit) FieldSchema)
     = Some (FGeneric \<lparr>GenericField.name = ''name'', type = None, options = None\<rparr>, 0)"
  using alias_never_targets_alias [of "TGeneric \<lparr>GenericField.name = ''name'', type = None,
         options = (None :: unit option)\<rparr>"
      "FAlias \<lparr>AliasField.name = ''displayName'', type = (),
       options = TGeneric \<lparr>GenericField.name = ''name'', type = None,
         options = (None :: unit option)\<rparr>\<rparr> :: (unit, unit) FieldSchema" 0]
    alias_never_targets_alias [of "TGeneric \<lparr>GenericField.name = ''name'', type = None,
         options = (None :: unit option)\<rparr>"
      "FGeneric \<lparr>GenericField.name = ''name'', type = None,
         options = (None :: unit option)\<rparr> :: (unit, unit) FieldSchema" 0]
  by simp

text \<open>
  C10: on a legacy \<open>belongsTo\<close> or \<open>hasMany\<close> field the value of \<open>resetOnRemoteUpdate\<close>
  is never true. Either the flag is omitted, and the local state is cleared on a remote
  update, or it is false, and the local changes are committed.
\<close>

theorem resetOnRemoteUpdate_never_true:
  "flag_value (resetOnRemoteUpdate_of r) \<noteq> Some True
   \<and> (flag_value (resetOnRemoteUpdate_of r) = None
        \<and> remoteUpdateBehavior (resetOnRemoteUpdate_of r) = ClearLocalState
      \<or> flag_value (resetOnRemoteUpdate_of r) = Some False
        \<and> remoteUpdateBehavior (resetOnRemoteUpdate_of r) = CommitLocalChanges)"
  using flag_value_cases [of "resetOnRemoteUpdate_of r"]
  by (cases "resetOnRemoteUpdate_of r") auto

end
